theory Spec2Isabelle
  imports Complex_Main "HOL-Library.Sublist"
begin

section \<open>Values, errors and frames\<close>

text \<open>
  A numeric cell of a pandas column is an IEEE double: a finite value, an infinity, or NaN
  (what \<open>read_csv\<close> puts in place of a missing number). A finite double is the real number
  it denotes; comparing a column with a Python number is exact on those, false on NaN in
  every direction, and ordered as expected on the infinities. Integer columns are held in
  the same type, as the integers they are.
\<close>

datatype f64 = NegInf | Fin real | PosInf | NaN

fun f64_le :: "f64 \<Rightarrow> real \<Rightarrow> bool" where
  "f64_le (Fin x) c = (x \<le> c)"
| "f64_le NegInf c = True"
| "f64_le PosInf c = False"
| "f64_le NaN c = False"

fun f64_lt :: "f64 \<Rightarrow> real \<Rightarrow> bool" where
  "f64_lt (Fin x) c = (x < c)"
| "f64_lt NegInf c = True"
| "f64_lt PosInf c = False"
| "f64_lt NaN c = False"

fun f64_ge :: "f64 \<Rightarrow> real \<Rightarrow> bool" where
  "f64_ge (Fin x) c = (c \<le> x)"
| "f64_ge NegInf c = False"
| "f64_ge PosInf c = True"
| "f64_ge NaN c = False"

fun f64_gt :: "f64 \<Rightarrow> real \<Rightarrow> bool" where
  "f64_gt (Fin x) c = (c < x)"
| "f64_gt NegInf c = False"
| "f64_gt PosInf c = True"
| "f64_gt NaN c = False"

text \<open>
  The exceptions the script can meet: \<open>read_csv\<close> on a missing path, \<open>read_csv\<close> on a
  file it cannot parse, a column label that the frame does not have, and a frame built
  from arrays (or indexed by a mask) of the wrong length.
\<close>

datatype csv_error = EmptyDataError | ParserError | UnicodeDecodeError

datatype py_error =
    FileNotFoundError
  | CsvError csv_error
  | KeyError string
  | ValueError

definition ebind :: "py_error + 'a \<Rightarrow> ('a \<Rightarrow> py_error + 'b) \<Rightarrow> py_error + 'b" where
  "ebind m f = (case m of Inl e \<Rightarrow> Inl e | Inr x \<Rightarrow> f x)"

text \<open>
  One housing observation. The fields are the columns the script names; the field of a
  column that a frame does not have is never read (reading it is a \<open>KeyError\<close>).
\<close>

record row =
  longitude :: f64
  latitude :: f64
  housing_median_age :: f64
  total_rooms :: f64
  total_bedrooms :: f64
  population :: f64
  households :: f64
  median_income :: f64
  median_house_value :: f64
  ocean_proximity :: string

record dataframe =
  columns :: "string list"
  rows :: "row list"

text \<open>\<open>df[name]\<close>: the column as a series, or \<open>KeyError\<close>.\<close>

definition getitem :: "dataframe \<Rightarrow> string \<Rightarrow> (row \<Rightarrow> 'a) \<Rightarrow> py_error + 'a list" where
  "getitem df name field =
     (if name \<in> set (columns df) then Inr (map field (rows df)) else Inl (KeyError name))"

text \<open>Comparing a series with a scalar gives a boolean series of the same length.\<close>

definition series_le :: "f64 list \<Rightarrow> real \<Rightarrow> bool list" where
  "series_le s c = map (\<lambda>v. f64_le v c) s"

definition series_lt :: "f64 list \<Rightarrow> real \<Rightarrow> bool list" where
  "series_lt s c = map (\<lambda>v. f64_lt v c) s"

definition series_ge :: "f64 list \<Rightarrow> real \<Rightarrow> bool list" where
  "series_ge s c = map (\<lambda>v. f64_ge v c) s"

definition series_gt :: "f64 list \<Rightarrow> real \<Rightarrow> bool list" where
  "series_gt s c = map (\<lambda>v. f64_gt v c) s"

text \<open>\<open>m1 & m2\<close> on two boolean series of one frame.\<close>

definition mask_and :: "bool list \<Rightarrow> bool list \<Rightarrow> bool list" where
  "mask_and m1 m2 = map (\<lambda>(a, b). a \<and> b) (zip m1 m2)"

text \<open>\<open>s.isin(values)\<close>.\<close>

definition isin :: "string list \<Rightarrow> string list \<Rightarrow> bool list" where
  "isin s vals = map (\<lambda>v. v \<in> set vals) s"

text \<open>
  \<open>df[mask]\<close>: a new frame with the same columns and the rows whose mask entry is true,
  in their order; a mask of another length is refused.
\<close>

definition loc_mask :: "dataframe \<Rightarrow> bool list \<Rightarrow> py_error + dataframe" where
  "loc_mask df m =
     (if length m = length (rows df)
      then Inr (df\<lparr>rows := map fst (filter snd (zip (rows df) m))\<rparr>)
      else Inl ValueError)"

section \<open>The filter pipeline\<close>

text \<open>
  The three labels of the income radio button. The first holds U+00B1, written here as
  its two UTF-8 bytes; the script only compares labels for equality.
\<close>

definition low_label :: string where
  "low_label = ''Low ('' @ [CHR 0xC2, CHR 0xB1] @ ''2.5)''"

definition medium_label :: string where
  "medium_label = ''Medium (> 2.5 & < 4.5)''"

definition high_label :: string where
  "high_label = ''High (> 4.5)''"

text \<open>The \<open>if\<close>/\<open>elif\<close>/\<open>else\<close> on \<open>income_level\<close>.\<close>

definition income_filter :: "string \<Rightarrow> dataframe \<Rightarrow> py_error + dataframe" where
  "income_filter income_level data =
     (if income_level = low_label then
        ebind (getitem data ''median_income'' median_income) (\<lambda>inc.
          loc_mask data (series_le inc 2.5))
      else if income_level = medium_label then
        ebind (getitem data ''median_income'' median_income) (\<lambda>inc1.
        ebind (getitem data ''median_income'' median_income) (\<lambda>inc2.
          loc_mask data (mask_and (series_gt inc1 2.5) (series_lt inc2 4.5))))
      else
        ebind (getitem data ''median_income'' median_income) (\<lambda>inc.
          loc_mask data (series_ge inc 4.5)))"

text \<open>
  The price range, applied to what the income step kept. The slider hands over a pair of
  integers; the step is written for any two numbers.
\<close>

definition price_filter :: "real \<times> real \<Rightarrow> dataframe \<Rightarrow> py_error + dataframe" where
  "price_filter price_range filtered =
     ebind (getitem filtered ''median_house_value'' median_house_value) (\<lambda>v1.
     ebind (getitem filtered ''median_house_value'' median_house_value) (\<lambda>v2.
       loc_mask filtered
         (mask_and (series_ge v1 (fst price_range)) (series_le v2 (snd price_range)))))"

text \<open>
  The location filter: only when the loaded frame has the column and the selection is
  not empty (an empty list is false in Python).
\<close>

definition category_filter ::
  "dataframe \<Rightarrow> string list \<Rightarrow> dataframe \<Rightarrow> py_error + dataframe" where
  "category_filter data location_types filtered =
     (if ''ocean_proximity'' \<in> set (columns data) \<and> location_types \<noteq> [] then
        ebind (getitem filtered ''ocean_proximity'' ocean_proximity) (\<lambda>prox.
          loc_mask filtered (isin prox location_types))
      else Inr filtered)"

definition filter_pipeline ::
  "dataframe \<Rightarrow> real \<times> real \<Rightarrow> string list \<Rightarrow> string \<Rightarrow> py_error + dataframe" where
  "filter_pipeline data price_range location_types income_level =
     ebind (income_filter income_level data) (\<lambda>f1.
     ebind (price_filter price_range f1) (\<lambda>f2.
       category_filter data location_types f2))"

text \<open>
  A row is kept by an income level when the income step returns the frame that holds
  just this row unchanged (the other outcome is the frame with no row).
\<close>

definition bucket_keeps :: "string \<Rightarrow> row \<Rightarrow> bool" where
  "bucket_keeps lvl r \<longleftrightarrow>
     income_filter lvl \<lparr>columns = [''median_income''], rows = [r]\<rparr> =
       Inr \<lparr>columns = [''median_income''], rows = [r]\<rparr>"

section \<open>The loader\<close>








section \<open>Inputs used to instantiate the theorems\<close>

text \<open>
  The three-row frame of the specification's example scenario; it has three columns, so
  the other fields of its rows stand for nothing.
\<close>

definition example_row :: "real \<Rightarrow> real \<Rightarrow> string \<Rightarrow> row" where
  "example_row inc val prox =
     \<lparr>longitude = NaN, latitude = NaN, housing_median_age = NaN, total_rooms = NaN,
      total_bedrooms = NaN, population = NaN, households = NaN,
      median_income = Fin inc, median_house_value = Fin val, ocean_proximity = prox\<rparr>"

definition example_data :: dataframe where
  "example_data =
     \<lparr>columns = [''median_income'', ''median_house_value'', ''ocean_proximity''],
      rows = [example_row 2.0 100000 ''INLAND'',
              example_row 3.0 200000 ''NEAR BAY'',
              example_row 5.0 300000 ''INLAND'']\<rparr>"



section \<open>Frames and masks\<close>

lemma ebind_Inr [simp]: "ebind (Inr x) f = f x"
  by (simp add: ebind_def)

lemma ebind_Inl [simp]: "ebind (Inl e) f = Inl e"
  by (simp add: ebind_def)

lemma ebind_return [simp]: "ebind m Inr = m"
  by (cases m) simp_all

lemma select_map: "map fst (filter snd (zip xs (map P xs))) = filter P xs"
  by (induction xs) simp_all

lemma loc_mask_series:
  "loc_mask df (map P (rows df)) = Inr (df\<lparr>rows := filter P (rows df)\<rparr>)"
  by (simp add: loc_mask_def select_map)

lemma mask_and_map: "mask_and (map P xs) (map Q xs) = map (\<lambda>x. P x \<and> Q x) xs"
  by (induction xs) (simp_all add: mask_and_def)

section \<open>The three steps of the filter\<close>

lemma labels_distinct:
  "low_label \<noteq> medium_label" "low_label \<noteq> high_label" "medium_label \<noteq> high_label"
  by (simp_all add: low_label_def medium_label_def high_label_def)

lemma income_filter_low:
  assumes "''median_income'' \<in> set (columns d)"
  shows "income_filter low_label d =
           Inr (d\<lparr>rows := filter (\<lambda>r. f64_le (median_income r) 2.5) (rows d)\<rparr>)"
  using assms by (simp add: income_filter_def getitem_def series_le_def loc_mask_series comp_def)

lemma income_filter_medium:
  assumes "''median_income'' \<in> set (columns d)"
  shows "income_filter medium_label d =
           Inr (d\<lparr>rows := filter (\<lambda>r. f64_gt (median_income r) 2.5 \<and> f64_lt (median_income r) 4.5)
                              (rows d)\<rparr>)"
  using assms labels_distinct
  by (simp add: income_filter_def getitem_def series_gt_def series_lt_def mask_and_map
      loc_mask_series comp_def)

lemma income_filter_else:
  assumes "''median_income'' \<in> set (columns d)"
    and "lvl \<noteq> low_label" and "lvl \<noteq> medium_label"
  shows "income_filter lvl d =
           Inr (d\<lparr>rows := filter (\<lambda>r. f64_ge (median_income r) 4.5) (rows d)\<rparr>)"
  using assms by (simp add: income_filter_def getitem_def series_ge_def loc_mask_series comp_def)

lemma income_filter_absent:
  assumes "''median_income'' \<notin> set (columns d)"
  shows "income_filter lvl d = Inl (KeyError ''median_income'')"
  using assms by (simp add: income_filter_def getitem_def)

lemma price_filter_present:
  assumes "''median_house_value'' \<in> set (columns f)"
  shows "price_filter pr f =
           Inr (f\<lparr>rows := filter (\<lambda>r. f64_ge (median_house_value r) (fst pr) \<and>
                                        f64_le (median_house_value r) (snd pr)) (rows f)\<rparr>)"
  using assms
  by (simp add: price_filter_def getitem_def series_ge_def series_le_def mask_and_map
      loc_mask_series comp_def)

lemma category_filter_active:
  assumes "''ocean_proximity'' \<in> set (columns d)" and "cats \<noteq> []"
    and "''ocean_proximity'' \<in> set (columns f)"
  shows "category_filter d cats f =
           Inr (f\<lparr>rows := filter (\<lambda>r. ocean_proximity r \<in> set cats) (rows f)\<rparr>)"
  using assms by (simp add: category_filter_def getitem_def isin_def loc_mask_series comp_def)

lemma category_filter_skipped:
  assumes "''ocean_proximity'' \<notin> set (columns d) \<or> cats = []"
  shows "category_filter d cats f = Inr f"
  using assms by (auto simp add: category_filter_def)


lemma income_filter_present:
  assumes "''median_income'' \<in> set (columns d)"
  shows "income_filter lvl d =
           Inr (d\<lparr>rows := filter (\<lambda>r.
                  if lvl = low_label then f64_le (median_income r) 2.5
                  else if lvl = medium_label
                    then f64_gt (median_income r) 2.5 \<and> f64_lt (median_income r) 4.5
                  else f64_ge (median_income r) 4.5) (rows d)\<rparr>)"
proof -
  consider "lvl = low_label" | "lvl = medium_label" | "lvl \<noteq> low_label" "lvl \<noteq> medium_label"
    by blast
  then show ?thesis
  proof cases
    case 1
    then show ?thesis using income_filter_low [OF assms] by simp
  next
    case 2
    then show ?thesis using income_filter_medium [OF assms] labels_distinct by simp
  next
    case 3
    then show ?thesis using income_filter_else [OF assms] by simp
  qed
qed

lemma filter_pipeline_present:
  assumes "''median_income'' \<in> set (columns d)" and "''median_house_value'' \<in> set (columns d)"
  shows "filter_pipeline d pr cats lvl =
           Inr (d\<lparr>rows :=
             filter (\<lambda>r. ''ocean_proximity'' \<in> set (columns d) \<and> cats \<noteq> []
                          \<longrightarrow> ocean_proximity r \<in> set cats)
              (filter (\<lambda>r. f64_ge (median_house_value r) (fst pr) \<and>
                           f64_le (median_house_value r) (snd pr))
                (filter (\<lambda>r.
                  if lvl = low_label then f64_le (median_income r) 2.5
                  else if lvl = medium_label
                    then f64_gt (median_income r) 2.5 \<and> f64_lt (median_income r) 4.5
                  else f64_ge (median_income r) 4.5) (rows d)))\<rparr>)"
proof (cases "''ocean_proximity'' \<in> set (columns d) \<and> cats \<noteq> []")
  case True
  then show ?thesis
    using assms
    by (simp add: filter_pipeline_def income_filter_present price_filter_present
        category_filter_active)
next
  case False
  then have "category_filter d cats f = Inr f" for f
    by (rule_tac category_filter_skipped) blast
  with False show ?thesis
    using assms
    by (simp add: filter_pipeline_def income_filter_present price_filter_present)
qed

text \<open>
  Claim C1. On a frame that has the two numeric columns the filter reads, the pipeline
  returns a frame with the same columns whose rows are a subsequence of the input rows
  (same order, nothing added), and every row it keeps passes the income test of the
  selected level, lies in the closed price range, and, when the frame has the location
  column and the selection is not empty, carries one of the selected locations.
\<close>

theorem filter_pipeline_sound:
  assumes "''median_income'' \<in> set (columns d)" and "''median_house_value'' \<in> set (columns d)"
  shows "\<exists>out. filter_pipeline d (lo, hi) cats lvl = Inr out \<and>
           columns out = columns d \<and>
           subseq (rows out) (rows d) \<and>
           (\<forall>r \<in> set (rows out).
              (lvl = low_label \<longrightarrow> f64_le (median_income r) 2.5) \<and>
              (lvl = medium_label \<longrightarrow>
                 f64_gt (median_income r) 2.5 \<and> f64_lt (median_income r) 4.5) \<and>
              (lvl = high_label \<longrightarrow> f64_ge (median_income r) 4.5) \<and>
              f64_ge (median_house_value r) lo \<and> f64_le (median_house_value r) hi \<and>
              (''ocean_proximity'' \<in> set (columns d) \<and> cats \<noteq> []
                 \<longrightarrow> ocean_proximity r \<in> set cats))"
proof -
  define inc where "inc = (\<lambda>r::row. if lvl = low_label then f64_le (median_income r) 2.5
                  else if lvl = medium_label
                    then f64_gt (median_income r) 2.5 \<and> f64_lt (median_income r) 4.5
                  else f64_ge (median_income r) 4.5)"
  define price where
    "price = (\<lambda>r::row. f64_ge (median_house_value r) lo \<and> f64_le (median_house_value r) hi)"
  define cat where "cat = (\<lambda>r::row. ''ocean_proximity'' \<in> set (columns d) \<and> cats \<noteq> []
                          \<longrightarrow> ocean_proximity r \<in> set cats)"
  define kept where "kept = filter cat (filter price (filter inc (rows d)))"
  have run: "filter_pipeline d (lo, hi) cats lvl = Inr (d\<lparr>rows := kept\<rparr>)"
    unfolding kept_def cat_def price_def inc_def
    using filter_pipeline_present [OF assms, of "(lo, hi)" cats lvl] by simp
  have sub: "subseq kept (rows d)"
    unfolding kept_def by (meson subseq_filter_left subseq_order.order_trans)
  have sat: "inc r \<and> price r \<and> cat r" if "r \<in> set kept" for r
    using that unfolding kept_def by simp
  have low: "f64_le (median_income r) 2.5" if "inc r" "lvl = low_label" for r
    using that unfolding inc_def by simp
  have med: "f64_gt (median_income r) 2.5 \<and> f64_lt (median_income r) 4.5"
    if "inc r" "lvl = medium_label" for r
    using that labels_distinct unfolding inc_def by simp
  have high: "f64_ge (median_income r) 4.5" if "inc r" "lvl = high_label" for r
    using that labels_distinct unfolding inc_def by simp
  have all: "\<forall>r \<in> set kept.
              (lvl = low_label \<longrightarrow> f64_le (median_income r) 2.5) \<and>
              (lvl = medium_label \<longrightarrow>
                 f64_gt (median_income r) 2.5 \<and> f64_lt (median_income r) 4.5) \<and>
              (lvl = high_label \<longrightarrow> f64_ge (median_income r) 4.5) \<and>
              f64_ge (median_house_value r) lo \<and> f64_le (median_house_value r) hi \<and>
              (''ocean_proximity'' \<in> set (columns d) \<and> cats \<noteq> []
                 \<longrightarrow> ocean_proximity r \<in> set cats)"
  proof
    fix r assume "r \<in> set kept"
    then have s: "inc r" "price r" "cat r" using sat by blast+
    from s(1) low med high s(2,3) show "(lvl = low_label \<longrightarrow> f64_le (median_income r) 2.5) \<and>
              (lvl = medium_label \<longrightarrow>
                 f64_gt (median_income r) 2.5 \<and> f64_lt (median_income r) 4.5) \<and>
              (lvl = high_label \<longrightarrow> f64_ge (median_income r) 4.5) \<and>
              f64_ge (median_house_value r) lo \<and> f64_le (median_house_value r) hi \<and>
              (''ocean_proximity'' \<in> set (columns d) \<and> cats \<noteq> []
                 \<longrightarrow> ocean_proximity r \<in> set cats)"
      unfolding price_def cat_def by blast
  qed
  define out where "out = d\<lparr>rows := kept\<rparr>"
  have o: "rows out = kept" "columns out = columns d"
    by (simp_all add: out_def)
  show ?thesis
  proof (intro exI [of _ out] conjI)
    show "filter_pipeline d (lo, hi) cats lvl = Inr out"
      unfolding out_def by (rule run)
    show "columns out = columns d" by (rule o(2))
    show "subseq (rows out) (rows d)" unfolding o(1) by (rule sub)
    show "\<forall>r \<in> set (rows out).
              (lvl = low_label \<longrightarrow> f64_le (median_income r) 2.5) \<and>
              (lvl = medium_label \<longrightarrow>
                 f64_gt (median_income r) 2.5 \<and> f64_lt (median_income r) 4.5) \<and>
              (lvl = high_label \<longrightarrow> f64_ge (median_income r) 4.5) \<and>
              f64_ge (median_house_value r) lo \<and> f64_le (median_house_value r) hi \<and>
              (''ocean_proximity'' \<in> set (columns d) \<and> cats \<noteq> []
                 \<longrightarrow> ocean_proximity r \<in> set cats)"
      unfolding o(1) by (rule all)
  qed
qed


text \<open>
  The example scenario meets the hypotheses of C1.
\<close>

theorem filter_pipeline_sound_witness:
  "''median_income'' \<in> set (columns example_data) \<and>
   ''median_house_value'' \<in> set (columns example_data) \<and>
   (\<exists>out. filter_pipeline example_data (100000, 300000) [''INLAND''] low_label = Inr out \<and>
      columns out = columns example_data \<and>
      subseq (rows out) (rows example_data) \<and>
      (\<forall>r \<in> set (rows out).
         f64_le (median_income r) 2.5 \<and>
         f64_ge (median_house_value r) 100000 \<and> f64_le (median_house_value r) 300000 \<and>
         ocean_proximity r \<in> set [''INLAND'']))"
proof -
  have h1: "''median_income'' \<in> set (columns example_data)"
    by (simp add: example_data_def)
  have h2: "''median_house_value'' \<in> set (columns example_data)"
    by (simp add: example_data_def)
  have h3: "''ocean_proximity'' \<in> set (columns example_data)"
    by (simp add: example_data_def)
  from filter_pipeline_sound [OF h1 h2, of 100000 300000 "[''INLAND'']" low_label]
  obtain out where
    "filter_pipeline example_data (100000, 300000) [''INLAND''] low_label = Inr out"
    "columns out = columns example_data"
    "subseq (rows out) (rows example_data)"
    "\<forall>r \<in> set (rows out).
         f64_le (median_income r) 2.5 \<and>
         f64_ge (median_house_value r) 100000 \<and> f64_le (median_house_value r) 300000 \<and>
         ocean_proximity r \<in> set [''INLAND'']"
    using h3 by auto
  with h1 h2 show ?thesis by blast
qed

text \<open>
  Claim C3. With an empty location selection the location step hands its input through,
  so the pipeline is the income step followed by the price step and nothing else.
\<close>

theorem empty_selection_skips_category:
  "category_filter d [] f = Inr f \<and>
   filter_pipeline d pr [] lvl = ebind (income_filter lvl d) (price_filter pr)"
  by (simp add: filter_pipeline_def category_filter_def)

section \<open>The example scenario\<close>

lemma example_columns:
  "''median_income'' \<in> set (columns example_data)"
  "''median_house_value'' \<in> set (columns example_data)"
  "''ocean_proximity'' \<in> set (columns example_data)"
  by (simp_all add: example_data_def)

lemma example_rows:
  "rows example_data =
     [example_row 2 100000 ''INLAND'', example_row 3 200000 ''NEAR BAY'',
      example_row 5 300000 ''INLAND'']"
  by (simp add: example_data_def)

lemma example_row_sel [simp]:
  "median_income (example_row i v p) = Fin i"
  "median_house_value (example_row i v p) = Fin v"
  "ocean_proximity (example_row i v p) = p"
  by (simp_all add: example_row_def)

text \<open>
  Claim C8. On the three-row example, price range 100000 to 300000, location INLAND and
  the low income level keep the first row and only it.
\<close>

theorem example_scenario:
  "filter_pipeline example_data (100000, 300000) [''INLAND''] low_label =
     Inr (example_data\<lparr>rows := [example_row 2.0 100000 ''INLAND'']\<rparr>)"
  by (simp add: filter_pipeline_present example_columns example_rows)

text \<open>
  Against claim C4 as stated: on the three-row example with an empty location selection,
  the medium income level and the price range 0 to 1000000, the output holds the second
  row; it is not empty.
\<close>

theorem empty_selection_not_empty_output:
  "filter_pipeline example_data (0, 1000000) [] medium_label =
     Inr (example_data\<lparr>rows := [example_row 3.0 200000 ''NEAR BAY'']\<rparr>) \<and>
   rows (example_data\<lparr>rows := [example_row 3.0 200000 ''NEAR BAY'']\<rparr>) \<noteq> []"
  using labels_distinct
  by (simp add: filter_pipeline_present example_columns example_rows)

section \<open>The price range and the remaining claims on the filter\<close>

lemma f64_between:
  "f64_ge v lo \<and> f64_le v hi \<longleftrightarrow> (\<exists>x. v = Fin x \<and> lo \<le> x \<and> x \<le> hi)"
  by (cases v) auto

text \<open>
  Claim C4, amended. With an empty location selection the location criterion removes no
  row: the output is what the income and price steps keep, and it is empty exactly when
  no row of the input passes both of them.
\<close>

theorem empty_selection_output:
  assumes "''median_income'' \<in> set (columns d)" and "''median_house_value'' \<in> set (columns d)"
  shows "\<exists>out. filter_pipeline d (lo, hi) [] lvl = Inr out \<and>
           ebind (income_filter lvl d) (price_filter (lo, hi)) = Inr out \<and>
           (rows out = [] \<longleftrightarrow>
              (\<forall>r \<in> set (rows d). \<not> (
                 (if lvl = low_label then f64_le (median_income r) 2.5
                  else if lvl = medium_label
                    then f64_gt (median_income r) 2.5 \<and> f64_lt (median_income r) 4.5
                  else f64_ge (median_income r) 4.5) \<and>
                 f64_ge (median_house_value r) lo \<and> f64_le (median_house_value r) hi)))"
proof -
  define keep where "keep = (\<lambda>r::row.
        (if lvl = low_label then f64_le (median_income r) 2.5
         else if lvl = medium_label
           then f64_gt (median_income r) 2.5 \<and> f64_lt (median_income r) 4.5
         else f64_ge (median_income r) 4.5) \<and>
        f64_ge (median_house_value r) lo \<and> f64_le (median_house_value r) hi)"
  define out where "out = d\<lparr>rows := filter keep (rows d)\<rparr>"
  have run: "filter_pipeline d (lo, hi) [] lvl = Inr out"
    unfolding out_def keep_def
    using filter_pipeline_present [OF assms, of "(lo, hi)" "[]" lvl]
    by (simp add: conj_commute cong: conj_cong)
  have two: "ebind (income_filter lvl d) (price_filter (lo, hi)) = Inr out"
    using run by (simp add: filter_pipeline_def category_filter_def)
  have r: "rows out = filter keep (rows d)"
    by (simp add: out_def)
  have e: "rows out = [] \<longleftrightarrow> (\<forall>r \<in> set (rows d). \<not> keep r)"
    unfolding r by (simp add: filter_empty_conv)
  show ?thesis
  proof (intro exI [of _ out] conjI)
    show "filter_pipeline d (lo, hi) [] lvl = Inr out" by (rule run)
    show "ebind (income_filter lvl d) (price_filter (lo, hi)) = Inr out" by (rule two)
    show "rows out = [] \<longleftrightarrow>
              (\<forall>r \<in> set (rows d). \<not> (
                 (if lvl = low_label then f64_le (median_income r) 2.5
                  else if lvl = medium_label
                    then f64_gt (median_income r) 2.5 \<and> f64_lt (median_income r) 4.5
                  else f64_ge (median_income r) 4.5) \<and>
                 f64_ge (median_house_value r) lo \<and> f64_le (median_house_value r) hi))"
      using e unfolding keep_def by blast
  qed
qed


text \<open>
  The example scenario meets the hypotheses of the amended C4, with a non-empty output.
\<close>

theorem empty_selection_output_witness:
  "''median_income'' \<in> set (columns example_data) \<and>
   ''median_house_value'' \<in> set (columns example_data) \<and>
   (\<exists>out. filter_pipeline example_data (0, 1000000) [] medium_label = Inr out \<and>
      ebind (income_filter medium_label example_data) (price_filter (0, 1000000)) = Inr out \<and>
      rows out \<noteq> [])"
proof -
  have h1: "''median_income'' \<in> set (columns example_data)"
    by (rule example_columns(1))
  have h2: "''median_house_value'' \<in> set (columns example_data)"
    by (rule example_columns(2))
  from empty_selection_output [OF h1 h2, of 0 1000000 medium_label]
  obtain out where o:
    "filter_pipeline example_data (0, 1000000) [] medium_label = Inr out"
    "ebind (income_filter medium_label example_data) (price_filter (0, 1000000)) = Inr out"
    "rows out = [] \<longleftrightarrow>
       (\<forall>r \<in> set (rows example_data). \<not> (
          (if medium_label = low_label then f64_le (median_income r) 2.5
           else if medium_label = medium_label
             then f64_gt (median_income r) 2.5 \<and> f64_lt (median_income r) 4.5
           else f64_ge (median_income r) 4.5) \<and>
          f64_ge (median_house_value r) 0 \<and> f64_le (median_house_value r) 1000000))"
    by blast
  have "rows out \<noteq> []"
    unfolding o(3) using labels_distinct by (simp add: example_rows)
  with o(1,2) h1 h2 show ?thesis by blast
qed

text \<open>
  Claim C5. The price step keeps exactly the rows whose \<open>median_house_value\<close> is a
  number \<open>v\<close> with \<open>price_min \<le> v \<le> price_max\<close>; both ends are included, so in a range
  (\<open>price_min \<le> price_max\<close>) a row sitting on either end is kept.
\<close>

theorem price_filter_inclusive:
  assumes "''median_house_value'' \<in> set (columns f)"
  shows "\<exists>out. price_filter (lo, hi) f = Inr out \<and>
           columns out = columns f \<and>
           rows out = filter (\<lambda>r. \<exists>v. median_house_value r = Fin v \<and> lo \<le> v \<and> v \<le> hi) (rows f) \<and>
           (lo \<le> hi \<longrightarrow>
              (\<forall>r \<in> set (rows f).
                 median_house_value r = Fin lo \<or> median_house_value r = Fin hi
                   \<longrightarrow> r \<in> set (rows out)))"
proof -
  define out where
    "out = f\<lparr>rows := filter (\<lambda>r. \<exists>v. median_house_value r = Fin v \<and> lo \<le> v \<and> v \<le> hi) (rows f)\<rparr>"
  have run: "price_filter (lo, hi) f = Inr out"
    unfolding out_def using price_filter_present [OF assms, of "(lo, hi)"]
    by (simp add: f64_between)
  have r: "rows out = filter (\<lambda>r. \<exists>v. median_house_value r = Fin v \<and> lo \<le> v \<and> v \<le> hi) (rows f)"
    and c: "columns out = columns f"
    by (simp_all add: out_def)
  have b: "lo \<le> hi \<longrightarrow>
              (\<forall>r \<in> set (rows f).
                 median_house_value r = Fin lo \<or> median_house_value r = Fin hi
                   \<longrightarrow> r \<in> set (rows out))"
    unfolding r by auto
  from run c r b show ?thesis by blast
qed

text \<open>
  On the example scenario the rows at 100000 and at 300000 are kept by the range
  100000 to 300000.
\<close>

theorem price_filter_inclusive_witness:
  "''median_house_value'' \<in> set (columns example_data) \<and>
   (\<exists>out. price_filter (100000, 300000) example_data = Inr out \<and>
      (100000::real) \<le> 300000 \<and>
      example_row 2 100000 ''INLAND'' \<in> set (rows out) \<and>
      example_row 5 300000 ''INLAND'' \<in> set (rows out))"
proof -
  have h: "''median_house_value'' \<in> set (columns example_data)"
    by (rule example_columns(2))
  from price_filter_inclusive [OF h, of 100000 300000]
  obtain out where o: "price_filter (100000, 300000) example_data = Inr out"
    "(100000::real) \<le> 300000 \<longrightarrow>
              (\<forall>r \<in> set (rows example_data).
                 median_house_value r = Fin 100000 \<or> median_house_value r = Fin 300000
                   \<longrightarrow> r \<in> set (rows out))"
    by blast
  have "example_row 2 100000 ''INLAND'' \<in> set (rows out)"
    "example_row 5 300000 ''INLAND'' \<in> set (rows out)"
    using o(2) by (simp_all add: example_rows)
  with o(1) h show ?thesis by simp
qed

text \<open>
  Claim C10. Any \<open>income_level\<close> other than the low and the medium label takes the
  \<open>else\<close> branch: the income step does what it does for the high label, keeping the
  rows with \<open>median_income \<ge> 4.5\<close>; the label is not rejected.
\<close>

theorem unrecognised_level_is_high:
  assumes "lvl \<noteq> low_label" and "lvl \<noteq> medium_label"
  shows "income_filter lvl d = income_filter high_label d \<and>
         (''median_income'' \<in> set (columns d) \<longrightarrow>
            income_filter lvl d =
              Inr (d\<lparr>rows := filter (\<lambda>r. f64_ge (median_income r) 4.5) (rows d)\<rparr>)) \<and>
         (''median_income'' \<notin> set (columns d) \<longrightarrow>
            income_filter lvl d = Inl (KeyError ''median_income''))"
proof (intro conjI impI)
  show "income_filter lvl d = income_filter high_label d"
    using assms labels_distinct by (simp add: income_filter_def)
  show "income_filter lvl d =
          Inr (d\<lparr>rows := filter (\<lambda>r. f64_ge (median_income r) 4.5) (rows d)\<rparr>)"
    if "''median_income'' \<in> set (columns d)"
    using income_filter_else [OF that assms] .
  show "income_filter lvl d = Inl (KeyError ''median_income'')"
    if "''median_income'' \<notin> set (columns d)"
    using income_filter_absent [OF that] .
qed

text \<open>
  A label that is none of the three offered ones keeps the one high-income row of the
  example scenario.
\<close>

theorem unrecognised_level_is_high_witness:
  "''Very high'' \<noteq> low_label \<and> ''Very high'' \<noteq> medium_label \<and>
   ''median_income'' \<in> set (columns example_data) \<and>
   income_filter ''Very high'' example_data = income_filter high_label example_data \<and>
   income_filter ''Very high'' example_data =
     Inr (example_data\<lparr>rows := [example_row 5 300000 ''INLAND'']\<rparr>)"
proof -
  have a: "''Very high'' \<noteq> low_label" "''Very high'' \<noteq> medium_label"
    by (simp_all add: low_label_def medium_label_def)
  have h: "''median_income'' \<in> set (columns example_data)"
    by (rule example_columns(1))
  from unrecognised_level_is_high [OF a, of example_data] h
  have "income_filter ''Very high'' example_data = income_filter high_label example_data"
    and "income_filter ''Very high'' example_data =
      Inr (example_data\<lparr>rows := filter (\<lambda>r. f64_ge (median_income r) 4.5) (rows example_data)\<rparr>)"
    by blast+
  then show ?thesis using a h by (simp add: example_rows)
qed

section \<open>Income levels\<close>

lemma one_row_frame:
  "income_filter lvl \<lparr>columns = [''median_income''], rows = [r]\<rparr> =
     Inr \<lparr>columns = [''median_income''],
          rows = (if (if lvl = low_label then f64_le (median_income r) 2.5
                      else if lvl = medium_label
                        then f64_gt (median_income r) 2.5 \<and> f64_lt (median_income r) 4.5
                      else f64_ge (median_income r) 4.5) then [r] else [])\<rparr>"
  by (simp add: income_filter_present)

lemma bucket_keeps_low: "bucket_keeps low_label r \<longleftrightarrow> f64_le (median_income r) 2.5"
  by (simp add: bucket_keeps_def one_row_frame)

lemma bucket_keeps_medium:
  "bucket_keeps medium_label r \<longleftrightarrow>
     f64_gt (median_income r) 2.5 \<and> f64_lt (median_income r) 4.5"
  using labels_distinct by (simp add: bucket_keeps_def one_row_frame)

lemma bucket_keeps_high: "bucket_keeps high_label r \<longleftrightarrow> f64_ge (median_income r) 4.5"
  using labels_distinct by (simp add: bucket_keeps_def one_row_frame)

text \<open>
  A missing income is kept by no level: the partition below is over the numbers.
\<close>

lemma bucket_keeps_NaN:
  "median_income r = NaN \<Longrightarrow> \<not> bucket_keeps lvl r"
  by (simp add: bucket_keeps_def one_row_frame)

text \<open>
  Claim C2. For every real income exactly one of the three levels keeps the row: low
  keeps it when the income is at most 2.5, medium when it lies strictly between 2.5 and
  4.5, high when it is at least 4.5. So 2.5 is low and not medium, 4.5 is high and not
  medium.
\<close>

theorem income_levels_partition:
  "length (filter (\<lambda>lvl. bucket_keeps lvl (r\<lparr>median_income := Fin x\<rparr>))
             [low_label, medium_label, high_label]) = 1 \<and>
   (bucket_keeps low_label (r\<lparr>median_income := Fin x\<rparr>) \<longleftrightarrow> x \<le> 2.5) \<and>
   (bucket_keeps medium_label (r\<lparr>median_income := Fin x\<rparr>) \<longleftrightarrow> 2.5 < x \<and> x < 4.5) \<and>
   (bucket_keeps high_label (r\<lparr>median_income := Fin x\<rparr>) \<longleftrightarrow> 4.5 \<le> x) \<and>
   bucket_keeps low_label (r\<lparr>median_income := Fin 2.5\<rparr>) \<and>
   \<not> bucket_keeps medium_label (r\<lparr>median_income := Fin 2.5\<rparr>) \<and>
   bucket_keeps high_label (r\<lparr>median_income := Fin 4.5\<rparr>) \<and>
   \<not> bucket_keeps medium_label (r\<lparr>median_income := Fin 4.5\<rparr>)"
  by (simp add: bucket_keeps_low bucket_keeps_medium bucket_keeps_high)

section \<open>The synthetic frame\<close>






section \<open>Loading\<close>







end
